theory Spec2Isabelle
  imports Main
begin

section \<open>Data model\<close>

text \<open>
  A Python \<open>str\<close> is modelled as a \<open>string\<close> holding its UTF-8 bytes, a \<open>bytes\<close> object
  as a \<open>string\<close> as well. An option that may be \<open>None\<close> is a \<open>string option\<close>.
  The dictionary built by \<open>load_inputs\<close> has a fixed set of thirteen keys, so it is a
  record; the key \<open>values\<close> is the field \<open>values_str\<close>, and \<open>-\<close> in a key is \<open>_\<close>.
\<close>

record specs =
  atomic :: "string option"
  chart_version :: "string option"
  chart :: "string option"
  dry_run :: "string option"
  helm_version :: "string option"
  mode :: "string option"
  namespace :: "string option"
  release :: "string option"
  repo_name :: "string option"
  repo :: "string option"
  timeout :: "string option"
  values_files :: "string option"
  values_str :: "string option"

text \<open>Python truth of an optional string: \<open>None\<close> and the empty string are false.\<close>

fun truthy :: "string option \<Rightarrow> bool" where
  "truthy None = False"
| "truthy (Some v) = (v \<noteq> [])"

text \<open>What an f-string prints for an optional string: \<open>None\<close> prints as the word None.\<close>

fun format_str :: "string option \<Rightarrow> string" where
  "format_str None = ''None''"
| "format_str (Some v) = v"

section \<open>Chart reference\<close>

definition load_chart :: "specs \<Rightarrow> string option" where
  "load_chart s =
     (if \<not> truthy (repo s) \<or> (truthy (repo s) \<and> truthy (repo_name s))
      then chart s
      else Some (''charts/'' @ format_str (chart s)))"

section \<open>Values files\<close>

text \<open>
  \<open>str.splitlines\<close>: the line boundaries are LF, CR, CR LF (one boundary), VT, FF,
  FS, GS, RS, NEL (U+0085, bytes C2 85), LS (U+2028, bytes E2 80 A8) and PS (U+2029, bytes
  E2 80 A9). \<open>linebreak_len\<close> is the number of bytes of the boundary a text starts with,
  0 when it starts with none.
\<close>

fun linebreak_len :: "string \<Rightarrow> nat" where
  "linebreak_len [] = 0"
| "linebreak_len (c # cs) =
     (if c = CHR 0x0D then (case cs of d # _ \<Rightarrow> if d = CHR 0x0A then 2 else 1 | [] \<Rightarrow> 1)
      else if c = CHR 0x0A \<or> c = CHR 0x0B \<or> c = CHR 0x0C
              \<or> c = CHR 0x1C \<or> c = CHR 0x1D \<or> c = CHR 0x1E then 1
      else if c = CHR 0xC2 then (case cs of d # _ \<Rightarrow> if d = CHR 0x85 then 2 else 0 | [] \<Rightarrow> 0)
      else if c = CHR 0xE2 then
        (case cs of
           d # e # _ \<Rightarrow> if d = CHR 0x80 \<and> (e = CHR 0xA8 \<or> e = CHR 0xA9) then 3 else 0
         | _ \<Rightarrow> 0)
      else 0)"

text \<open>
  The scan of \<open>splitlines\<close>: \<open>cur\<close> is the line read so far. A boundary closes the line
  (also an empty one); the end of the text closes a line only when it is not empty, so a
  final boundary adds no empty line.
\<close>

function splitlines_from :: "string \<Rightarrow> string \<Rightarrow> string list" where
  "splitlines_from cur [] = (if cur = [] then [] else [cur])"
| "splitlines_from cur (c # cs) =
     (if linebreak_len (c # cs) = 0 then splitlines_from (cur @ [c]) cs
      else cur # splitlines_from [] (drop (linebreak_len (c # cs) - 1) cs))"
  by pat_completeness auto
termination
  by (relation "measure (\<lambda>(cur, s). length s)") auto

definition splitlines :: "string \<Rightarrow> string list" where
  "splitlines s = splitlines_from [] s"

definition load_values_files :: "specs \<Rightarrow> string list" where
  "load_values_files s =
     (case values_files s of
        None \<Rightarrow> []
      | Some v \<Rightarrow> if v = [] then [] else filter (\<lambda>l. l \<noteq> []) (splitlines v))"

section \<open>Exceptions, the file system and the child process\<close>

text \<open>
  \<open>BinasciiError\<close> is \<open>binascii.Error\<close>, \<open>YAMLError\<close> the error of the YAML parser,
  \<open>OSError\<close> what \<open>Popen\<close> and \<open>unlink\<close> raise, \<open>UnicodeEncodeError\<close> what writing
  to a text file raises. All of them are instances of
  \<open>Exception\<close>. \<open>SystemExit\<close> is what \<open>sys.exit\<close> raises; it is kept apart because
  it carries the exit code of the process.
\<close>

datatype exc = TypeError | ValueError | BinasciiError | YAMLError | OSError | UnicodeEncodeError

datatype 'a outcome = Returned 'a | SystemExit int | Raised exc

text \<open>
  What the program changes: the lines printed, the files written (path to content), the
  directories created and the child processes started (command line and the
  \<open>KUBECONFIG\<close> override of the environment, if any).
\<close>

record world =
  stdout :: "string list"
  files :: "string \<rightharpoonup> string"
  dirs :: "string list"
  launched :: "(string \<times> string option) list"

text \<open>
  What the program is given: the environment variables, the directory that
  \<open>tempfile.mkdtemp\<close> makes, the YAML parser, and the child: \<open>child h line kubeconfig\<close>
  is what \<open>shlex.split\<close>, \<open>Popen\<close> and \<open>wait\<close> make of a command line, an exception
  (\<open>ValueError\<close> of \<open>shlex.split\<close>, \<open>OSError\<close> of \<open>Popen\<close>) or the return code.
\<close>

record host =
  environ :: "string \<rightharpoonup> string"
  tmpdir :: string
  yaml_parser :: "string \<Rightarrow> exc + unit"
  child :: "string \<Rightarrow> string option \<Rightarrow> exc + int"

text \<open>Sequencing: an exception or an exit of the first step skips the second.\<close>

fun then_do ::
  "'a outcome \<times> world \<Rightarrow> ('a \<Rightarrow> world \<Rightarrow> 'b outcome \<times> world) \<Rightarrow> 'b outcome \<times> world" where
  "then_do (Returned x, w) f = f x w"
| "then_do (SystemExit c, w) f = (SystemExit c, w)"
| "then_do (Raised e, w) f = (Raised e, w)"

definition print :: "string \<Rightarrow> world \<Rightarrow> world" where
  "print line w = w\<lparr>stdout := stdout w @ [line]\<rparr>"

text \<open>
  \<open>wrkdir / name\<close>: the working directory is the resolved path of a directory made by
  \<open>mkdtemp\<close>, so the joined path is the directory, a slash and the name.
\<close>

definition path_join :: "string \<Rightarrow> string \<Rightarrow> string" where
  "path_join d name = d @ ''/'' @ name"

section \<open>Inputs\<close>

definition ascii_upper :: "char \<Rightarrow> char" where
  "ascii_upper c =
     (if (97::nat) \<le> of_char c \<and> of_char c \<le> (122::nat) then char_of (of_char c - (32::nat))
      else c)"

definition env_name :: "string \<Rightarrow> string" where
  "env_name key =
     ''GHINPUT_'' @ map (\<lambda>c. if c = CHR ''-'' then CHR ''_'' else c) (map ascii_upper key)"

definition load_inputs :: "(string \<rightharpoonup> string) \<Rightarrow> specs" where
  "load_inputs env =
     \<lparr>atomic = env (env_name ''atomic''),
      chart_version = env (env_name ''chart-version''),
      chart = env (env_name ''chart''),
      dry_run = env (env_name ''dry-run''),
      helm_version = env (env_name ''helm-version''),
      mode = env (env_name ''mode''),
      namespace = env (env_name ''namespace''),
      release = env (env_name ''release''),
      repo_name = env (env_name ''repo-name''),
      repo = env (env_name ''repo''),
      timeout = env (env_name ''timeout''),
      values_files = env (env_name ''values-files''),
      values_str = env (env_name ''values'')\<rparr>"

section \<open>Inline values\<close>

text \<open>
  \<open>safe_load_all\<close> of the YAML library is a generator function: a call makes the
  generator object and runs nothing of its body, so the parser runs only when the generator
  is iterated. The call itself returns, whatever the text is.
\<close>

type_synonym 'a generator = "unit \<Rightarrow> exc + 'a"

definition ymlload :: "host \<Rightarrow> string \<Rightarrow> exc + unit generator" where
  "ymlload h text = Inr (\<lambda>_. yaml_parser h text)"

text \<open>
  The file is opened in text mode and the text is encoded as UTF-8 when it is written.
  The value of an environment variable that is not well-formed UTF-8 is a \<open>str\<close> with
  lone surrogates, which cannot be encoded: \<open>open\<close> has made the file, \<open>write\<close> raises
  \<open>UnicodeEncodeError\<close>, and the file stays empty. \<open>utf8_bytes\<close> says that a sequence
  of byte values is well-formed UTF-8: one byte below 128, or a lead byte C2 to F4
  followed by one to three continuation bytes, without overlong forms, surrogates and
  code points beyond U+10FFFF.
\<close>

definition utf8_cont :: "nat \<Rightarrow> bool" where
  "utf8_cont b = (128 \<le> b \<and> b \<le> 191)"

definition utf8_second :: "nat \<Rightarrow> nat \<Rightarrow> bool" where
  "utf8_second a b =
     (if a = 224 then 160 \<le> b \<and> b \<le> 191
      else if a = 237 then 128 \<le> b \<and> b \<le> 159
      else if a = 240 then 144 \<le> b \<and> b \<le> 191
      else if a = 244 then 128 \<le> b \<and> b \<le> 143
      else utf8_cont b)"

fun utf8_bytes :: "nat list \<Rightarrow> bool" where
  "utf8_bytes [] = True"
| "utf8_bytes (a # bs) =
     (if a < 128 then utf8_bytes bs
      else if 194 \<le> a \<and> a \<le> 223 then
        (case bs of b # r \<Rightarrow> utf8_cont b \<and> utf8_bytes r | _ \<Rightarrow> False)
      else if 224 \<le> a \<and> a \<le> 239 then
        (case bs of
           b # c # r \<Rightarrow> utf8_second a b \<and> utf8_cont c \<and> utf8_bytes r
         | _ \<Rightarrow> False)
      else if 240 \<le> a \<and> a \<le> 244 then
        (case bs of
           b # c # d # r \<Rightarrow> utf8_second a b \<and> utf8_cont c \<and> utf8_cont d \<and> utf8_bytes r
         | _ \<Rightarrow> False)
      else False)"

definition utf8_valid :: "string \<Rightarrow> bool" where
  "utf8_valid s = utf8_bytes (map of_char s)"

definition load_values :: "host \<Rightarrow> string \<Rightarrow> specs \<Rightarrow> world \<Rightarrow> string option outcome \<times> world" where
  "load_values h wrkdir s w =
     (case values_str s of
        None \<Rightarrow> (Returned None, w)
      | Some v \<Rightarrow>
          if v = [] then (Returned None, w)
          else
            let dst = path_join wrkdir ''values.yaml'' in
            (case ymlload h v of
               Inl e \<Rightarrow> (SystemExit 1, print ''Unable to parse `values`.'' w)
             | Inr g \<Rightarrow>
                 if utf8_valid v
                 then (Returned (Some dst), w\<lparr>files := (files w)(dst \<mapsto> v)\<rparr>)
                 else (Raised UnicodeEncodeError, w\<lparr>files := (files w)(dst \<mapsto> [])\<rparr>)))"

section \<open>Running helm\<close>

fun join_sp :: "string list \<Rightarrow> string" where
  "join_sp [] = []"
| "join_sp [x] = x"
| "join_sp (x # y # ys) = x @ '' '' @ join_sp (y # ys)"

text \<open>
  \<open>" ".join\<close> raises \<open>TypeError\<close> when an item of the list is \<open>None\<close>.
  \<open>run_helm\<close> joins the command line and hands it to the child; a child that ran is
  recorded in \<open>launched\<close>. The handlers that forward an interrupt to the child are not
  part of the model.
\<close>

definition helm_cmd :: "string \<Rightarrow> string option list \<Rightarrow> exc + string" where
  "helm_cmd cmd params =
     (if None \<in> set params then Inl TypeError
      else Inr (join_sp ([''helm'', cmd] @ map the params)))"

definition run_helm ::
  "host \<Rightarrow> string \<Rightarrow> string option list \<Rightarrow> string option \<Rightarrow> world \<Rightarrow> int outcome \<times> world" where
  "run_helm h cmd params kubeconfig w =
     (case helm_cmd cmd params of
        Inl e \<Rightarrow> (Raised e, w)
      | Inr line \<Rightarrow>
          (case child h line kubeconfig of
             Inl e \<Rightarrow> (Raised e, w)
           | Inr returncode \<Rightarrow>
               (Returned returncode, w\<lparr>launched := launched w @ [(line, kubeconfig)]\<rparr>)))"

definition load_repo ::
  "(host \<Rightarrow> string \<Rightarrow> specs \<Rightarrow> world \<Rightarrow> unit outcome \<times> world)
   \<Rightarrow> host \<Rightarrow> string \<Rightarrow> specs \<Rightarrow> world \<Rightarrow> unit outcome \<times> world" where
  "load_repo inner h wrkdir s w =
     (if truthy (repo s) then
        then_do
          (run_helm h ''repo add --force-update''
             [if truthy (repo_name s) then repo_name s else Some ''charts'', repo s] None w)
          (\<lambda>_ w1. then_do (run_helm h ''repo update'' [] None w1)
             (\<lambda>_ w2. inner h wrkdir s w2))
      else inner h wrkdir s w)"

section \<open>Argument lists\<close>

text \<open>
  A Python list of the operations may hold \<open>None\<close> (an option read from the
  environment that is not set), so an argument list is a \<open>string option list\<close>.
  \<open>values_target\<close> is what \<open>load_values\<close> returned.
\<close>

definition values_files_params :: "string list \<Rightarrow> string option list" where
  "values_files_params fs = concat (map (\<lambda>f. [Some ''-f'', Some f]) fs)"

definition install_params :: "specs \<Rightarrow> string option \<Rightarrow> string option list" where
  "install_params s values_target =
     [release s, load_chart s, Some ''--namespace'', namespace s]
     @ (if atomic s = Some ''true'' then [Some ''--atomic''] else [])
     @ (if dry_run s = Some ''true'' then [Some ''--dry-run''] else [])
     @ values_files_params (load_values_files s)
     @ (if truthy values_target then [Some ''-f'', values_target] else [])
     @ (if truthy (chart_version s) then [Some ''--version'', chart_version s] else [])
     @ (if truthy (timeout s) then [Some ''--timeout'', timeout s] else [])"

definition upgrade_params :: "specs \<Rightarrow> string option \<Rightarrow> string option list" where
  "upgrade_params s values_target =
     [release s, load_chart s, Some ''--install'', Some ''--namespace'', namespace s]
     @ (if atomic s = Some ''true'' then [Some ''--atomic''] else [])
     @ (if dry_run s = Some ''true'' then [Some ''--dry-run''] else [])
     @ values_files_params (load_values_files s)
     @ (if truthy values_target then [Some ''-f'', values_target] else [])
     @ (if truthy (chart_version s) then [Some ''--version'', chart_version s] else [])
     @ (if truthy (timeout s) then [Some ''--timeout'', timeout s] else [])"

definition template_params :: "specs \<Rightarrow> string option \<Rightarrow> string option list" where
  "template_params s values_target =
     [release s, load_chart s, Some ''--namespace'', namespace s]
     @ values_files_params (load_values_files s)
     @ (if truthy values_target then [Some ''-f'', values_target] else [])
     @ (if truthy (chart_version s) then [Some ''--version'', chart_version s] else [])"

definition uninstall_params :: "specs \<Rightarrow> string option list" where
  "uninstall_params s = [release s, Some ''--namespace'', namespace s]"

section \<open>Credential\<close>

text \<open>
  \<open>base64.b64decode\<close> with its default \<open>validate=False\<close>. A \<open>str\<close> argument is first
  encoded as ASCII, which raises \<open>ValueError\<close> when a character is not ASCII (in UTF-8
  such a character is made of bytes from 128 on). The bytes then go to
  \<open>binascii.a2b_base64\<close>, not in strict mode: \<open>b64_value\<close> is its table, the index of a
  character in the alphabet A-Z, a-z, 0-9, plus and slash.
\<close>

definition b64_value :: "char \<Rightarrow> nat option" where
  "b64_value c =
     (let n = (of_char c :: nat) in
      if 65 \<le> n \<and> n \<le> 90 then Some (n - 65)
      else if 97 \<le> n \<and> n \<le> 122 then Some (n - 71)
      else if 48 \<le> n \<and> n \<le> 57 then Some (n + 4)
      else if n = 43 then Some 62
      else if n = 47 then Some 63
      else None)"

text \<open>
  The loop of \<open>a2b_base64\<close>: \<open>quad_pos\<close> is the position in the group of four characters,
  \<open>leftchar\<close> the bits not yet written, \<open>pads\<close> the padding characters seen since the last
  character of the alphabet, \<open>out\<close> the bytes written. A padding character ends the
  decoding when it completes a group that has at least two characters; elsewhere it is
  skipped, and counted only from position 2 on. A character that is not in the table is
  skipped. At the end of the text a group left open is an error.
\<close>

fun a2b_loop :: "nat \<Rightarrow> nat \<Rightarrow> nat \<Rightarrow> string \<Rightarrow> string \<Rightarrow> exc + string" where
  "a2b_loop quad_pos leftchar pads out [] =
     (if quad_pos \<noteq> 0 then Inl BinasciiError else Inr out)"
| "a2b_loop quad_pos leftchar pads out (c # cs) =
     (if c = CHR ''='' then
        (if 2 \<le> quad_pos \<and> 4 \<le> quad_pos + (pads + 1) then Inr out
         else a2b_loop quad_pos leftchar (if 2 \<le> quad_pos then pads + 1 else pads) out cs)
      else
        (case b64_value c of
           None \<Rightarrow> a2b_loop quad_pos leftchar pads out cs
         | Some v \<Rightarrow>
             if quad_pos = 0 then a2b_loop 1 v 0 out cs
             else if quad_pos = 1 then
               a2b_loop 2 (v mod 16) 0 (out @ [char_of (leftchar * 4 + v div 16)]) cs
             else if quad_pos = 2 then
               a2b_loop 3 (v mod 4) 0 (out @ [char_of (leftchar * 16 + v div 4)]) cs
             else a2b_loop 0 0 0 (out @ [char_of (leftchar * 64 + v)]) cs))"

definition a2b_base64 :: "string \<Rightarrow> exc + string" where
  "a2b_base64 s = a2b_loop 0 0 0 [] s"

definition is_ascii :: "char \<Rightarrow> bool" where
  "is_ascii c = ((of_char c :: nat) < 128)"

definition b64decode :: "string \<Rightarrow> exc + string" where
  "b64decode s = (if list_all is_ascii s then a2b_base64 s else Inl ValueError)"

text \<open>
  \<open>load_kubeconfig\<close> is a generator with one \<open>yield\<close>, made a context manager:
  \<open>load_kubeconfig_enter\<close> is the part before the \<open>yield\<close>, \<open>load_kubeconfig_exit\<close> the
  part after it. The generator has no \<open>try\<close> around the \<open>yield\<close>.
\<close>

definition load_kubeconfig_enter :: "host \<Rightarrow> string \<Rightarrow> world \<Rightarrow> string outcome \<times> world" where
  "load_kubeconfig_enter h wrkdir w =
     (let encoded = (case environ h ''KUBECFGB64'' of None \<Rightarrow> [] | Some e \<Rightarrow> e) in
      case b64decode encoded of
        Inl e \<Rightarrow> (SystemExit 1, print ''Bad kubeconfig'' w)
      | Inr decoded \<Rightarrow>
          let dst = path_join wrkdir ''.kube_config.yml'' in
          (Returned dst, w\<lparr>files := (files w)(dst \<mapsto> decoded)\<rparr>))"

definition load_kubeconfig_exit :: "string \<Rightarrow> world \<Rightarrow> unit outcome \<times> world" where
  "load_kubeconfig_exit dst w =
     (if files w dst = None then (Raised OSError, w)
      else (Returned (), w\<lparr>files := (files w)(dst := None)\<rparr>))"

text \<open>
  The \<open>with\<close> block of \<open>wrap_helm\<close>: when its body returns, the generator is resumed and
  runs to its end; when its body raises, the exception is raised again inside the generator
  at the \<open>yield\<close>, where nothing catches it, so the rest of the generator does not run and
  the exception leaves the block.
\<close>

definition wrap_helm ::
  "host \<Rightarrow> string \<Rightarrow> string \<Rightarrow> string option list \<Rightarrow> bool \<Rightarrow> world \<Rightarrow> unit outcome \<times> world" where
  "wrap_helm h wrkdir cmd params exit w =
     then_do (load_kubeconfig_enter h wrkdir w)
       (\<lambda>kubeconfig w1.
          case run_helm h cmd params (Some kubeconfig) w1 of
            (Returned ret, w2) \<Rightarrow>
              then_do (load_kubeconfig_exit kubeconfig w2)
                (\<lambda>_ w3. if exit then (SystemExit ret, w3) else (Returned (), w3))
          | (SystemExit c, w2) \<Rightarrow> (SystemExit c, w2)
          | (Raised e, w2) \<Rightarrow> (Raised e, w2))"

section \<open>Operations\<close>

definition helm_install_inner :: "host \<Rightarrow> string \<Rightarrow> specs \<Rightarrow> world \<Rightarrow> unit outcome \<times> world" where
  "helm_install_inner h wrkdir s w =
     then_do (load_values h wrkdir s w)
       (\<lambda>values_target w1. wrap_helm h wrkdir ''install'' (install_params s values_target) True w1)"

definition helm_install :: "host \<Rightarrow> string \<Rightarrow> specs \<Rightarrow> world \<Rightarrow> unit outcome \<times> world" where
  "helm_install = load_repo helm_install_inner"

definition helm_upgrade_inner :: "host \<Rightarrow> string \<Rightarrow> specs \<Rightarrow> world \<Rightarrow> unit outcome \<times> world" where
  "helm_upgrade_inner h wrkdir s w =
     then_do (load_values h wrkdir s w)
       (\<lambda>values_target w1. wrap_helm h wrkdir ''upgrade'' (upgrade_params s values_target) True w1)"

definition helm_upgrade :: "host \<Rightarrow> string \<Rightarrow> specs \<Rightarrow> world \<Rightarrow> unit outcome \<times> world" where
  "helm_upgrade = load_repo helm_upgrade_inner"

definition helm_template_inner :: "host \<Rightarrow> string \<Rightarrow> specs \<Rightarrow> world \<Rightarrow> unit outcome \<times> world" where
  "helm_template_inner h wrkdir s w =
     then_do (load_values h wrkdir s w)
       (\<lambda>values_target w1.
          then_do (run_helm h ''template'' (template_params s values_target) None w1)
            (\<lambda>ret w2. (SystemExit ret, w2)))"

definition helm_template :: "host \<Rightarrow> string \<Rightarrow> specs \<Rightarrow> world \<Rightarrow> unit outcome \<times> world" where
  "helm_template = load_repo helm_template_inner"

definition helm_uninstall :: "host \<Rightarrow> string \<Rightarrow> specs \<Rightarrow> world \<Rightarrow> unit outcome \<times> world" where
  "helm_uninstall h wrkdir s w = wrap_helm h wrkdir ''uninstall'' (uninstall_params s) True w"

section \<open>Dispatch\<close>

text \<open>The dictionary of \<open>run\<close> and its \<open>get\<close>: a mode that is no key, or no mode, gives \<open>None\<close>.\<close>

definition dispatch ::
  "string option \<Rightarrow> (host \<Rightarrow> string \<Rightarrow> specs \<Rightarrow> world \<Rightarrow> unit outcome \<times> world) option" where
  "dispatch m =
     (if m = Some ''install'' then Some helm_install
      else if m = Some ''upgrade'' then Some helm_upgrade
      else if m = Some ''uninstall'' then Some helm_uninstall
      else if m = Some ''template'' then Some helm_template
      else None)"

definition run :: "host \<Rightarrow> world \<Rightarrow> unit outcome \<times> world" where
  "run h w =
     (let s = load_inputs (environ h) in
      case dispatch (mode s) of
        None \<Rightarrow> (SystemExit 1, print ''Unknown `mode` specified.'' w)
      | Some cmd \<Rightarrow> cmd h (tmpdir h) s (w\<lparr>dirs := dirs w @ [tmpdir h]\<rparr>))"

section \<open>Notions used in the statements\<close>

text \<open>The text with its line boundaries taken out.\<close>

function remove_breaks :: "string \<Rightarrow> string" where
  "remove_breaks [] = []"
| "remove_breaks (c # cs) =
     (if linebreak_len (c # cs) = 0 then c # remove_breaks cs
      else remove_breaks (drop (linebreak_len (c # cs) - 1) cs))"
  by pat_completeness auto
termination
  by (relation "measure length") auto

text \<open>A text that holds a line boundary somewhere.\<close>

fun has_break :: "string \<Rightarrow> bool" where
  "has_break [] = False"
| "has_break (c # cs) = (0 < linebreak_len (c # cs) \<or> has_break cs)"

text \<open>
  What one option adds to an argument list, as the specification words it: a flag when
  the option is the text true, a flag and the value when the option is set and not empty,
  a \<open>-f\<close> and the path for every line of the values-files option that is not empty.
\<close>

definition flag_args :: "string \<Rightarrow> string option \<Rightarrow> string option list" where
  "flag_args flag opt = (if opt = Some ''true'' then [Some flag] else [])"

definition pair_args :: "string \<Rightarrow> string option \<Rightarrow> string option list" where
  "pair_args flag opt =
     (case opt of None \<Rightarrow> [] | Some v \<Rightarrow> if v = [] then [] else [Some flag, Some v])"

definition files_args :: "string option \<Rightarrow> string option list" where
  "files_args opt =
     (case opt of
        None \<Rightarrow> []
      | Some v \<Rightarrow>
          concat (map (\<lambda>f. [Some ''-f'', Some f]) (filter (\<lambda>l. l \<noteq> []) (splitlines v))))"

text \<open>The characters that the decoder does not skip: the alphabet and the padding.\<close>

definition b64_char :: "char \<Rightarrow> bool" where
  "b64_char c = (c = CHR ''='' \<or> b64_value c \<noteq> None)"

section \<open>Configurations used in the examples\<close>

definition no_specs :: specs where
  "no_specs =
     \<lparr>atomic = None, chart_version = None, chart = None, dry_run = None, helm_version = None,
      mode = None, namespace = None, release = None, repo_name = None, repo = None,
      timeout = None, values_files = None, values_str = None\<rparr>"

definition demo_specs :: specs where
  "demo_specs =
     \<lparr>atomic = Some ''true'', chart_version = Some ''1.2.3'', chart = Some ''app'',
      dry_run = None, helm_version = None, mode = Some ''install'', namespace = Some ''ns1'',
      release = Some ''r1'', repo_name = None, repo = Some ''https://charts.example.org'',
      timeout = Some ''5m0s'',
      values_files = Some [CHR ''a'', CHR 0x0A, CHR 0x0A, CHR ''b'', CHR 0x0A],
      values_str = Some ''k: v''\<rparr>"

text \<open>Only a repository is configured: no release, no chart, no namespace.\<close>

definition repo_only_specs :: specs where
  "repo_only_specs = no_specs\<lparr>repo := Some ''https://charts.example.org''\<rparr>"

definition empty_world :: world where
  "empty_world = \<lparr>stdout = [], files = Map.empty, dirs = [], launched = []\<rparr>"

text \<open>
  Two hosts over a given environment. On both the YAML parser rejects every text. On the
  first helm runs and returns 0; on the second there is no helm binary, so \<open>Popen\<close>
  raises.
\<close>

definition demo_host :: "(string \<rightharpoonup> string) \<Rightarrow> host" where
  "demo_host env =
     \<lparr>environ = env, tmpdir = ''/tmp/tmpw'', yaml_parser = (\<lambda>_. Inl YAMLError),
      child = (\<lambda>_ _. Inr 0)\<rparr>"

definition no_helm_host :: "(string \<rightharpoonup> string) \<Rightarrow> host" where
  "no_helm_host env =
     \<lparr>environ = env, tmpdir = ''/tmp/tmpw'', yaml_parser = (\<lambda>_. Inl YAMLError),
      child = (\<lambda>_ _. Inl OSError)\<rparr>"

definition uninstall_env :: "string \<rightharpoonup> string" where
  "uninstall_env =
     [''GHINPUT_MODE'' \<mapsto> ''uninstall'', ''GHINPUT_RELEASE'' \<mapsto> ''r1'',
      ''GHINPUT_NAMESPACE'' \<mapsto> ''ns1'', ''GHINPUT_REPO'' \<mapsto> ''https://charts.example.org'',
      ''GHINPUT_VALUES'' \<mapsto> ''k: v'', ''KUBECFGB64'' \<mapsto> ''aGk='']"

text \<open>The same without a release.\<close>

definition leak_env :: "string \<rightharpoonup> string" where
  "leak_env =
     [''GHINPUT_MODE'' \<mapsto> ''uninstall'', ''GHINPUT_NAMESPACE'' \<mapsto> ''ns1'',
      ''KUBECFGB64'' \<mapsto> ''aGk='']"

section \<open>Evaluation lemmas\<close>

lemma splitlines_a_b:
  "splitlines [CHR ''a'', CHR 0x0A, CHR 0x0A, CHR ''b'', CHR 0x0A] = [''a'', [], ''b'']"
  by (simp add: splitlines_def)

lemmas params_defs =
  install_params_def upgrade_params_def template_params_def uninstall_params_def
  load_chart_def load_values_files_def values_files_params_def

lemma env_names:
  "env_name ''atomic'' = ''GHINPUT_ATOMIC''"
  "env_name ''chart-version'' = ''GHINPUT_CHART_VERSION''"
  "env_name ''chart'' = ''GHINPUT_CHART''"
  "env_name ''dry-run'' = ''GHINPUT_DRY_RUN''"
  "env_name ''helm-version'' = ''GHINPUT_HELM_VERSION''"
  "env_name ''mode'' = ''GHINPUT_MODE''"
  "env_name ''namespace'' = ''GHINPUT_NAMESPACE''"
  "env_name ''release'' = ''GHINPUT_RELEASE''"
  "env_name ''repo-name'' = ''GHINPUT_REPO_NAME''"
  "env_name ''repo'' = ''GHINPUT_REPO''"
  "env_name ''timeout'' = ''GHINPUT_TIMEOUT''"
  "env_name ''values-files'' = ''GHINPUT_VALUES_FILES''"
  "env_name ''values'' = ''GHINPUT_VALUES''"
  by code_simp+

lemma load_inputs_fields:
  "mode (load_inputs env) = env ''GHINPUT_MODE''"
  "release (load_inputs env) = env ''GHINPUT_RELEASE''"
  "namespace (load_inputs env) = env ''GHINPUT_NAMESPACE''"
  by (simp_all add: load_inputs_def env_names)

lemma b64decode_examples:
  "b64decode ''aGk='' = Inr ''hi''"
  "b64decode ''a!G k='' = Inr ''hi''"
  "filter b64_char ''a!G k='' = ''aGk=''"
  "list_all is_ascii ''a!G k=''"
  "b64decode ''aGk'' = Inl BinasciiError"
  "b64decode [CHR ''a'', CHR ''G'', CHR 0xC3, CHR 0xA9, CHR ''k'', CHR ''=''] = Inl ValueError"
  "filter b64_char [CHR ''a'', CHR ''G'', CHR 0xC3, CHR 0xA9, CHR ''k'', CHR ''=''] = ''aGk=''"
  by code_simp+

lemma helm_cmd_uninstall:
  "helm_cmd ''uninstall'' [Some ''r1'', Some ''--namespace'', Some ''ns1''] =
     Inr ''helm uninstall r1 --namespace ns1''"
  by (simp add: helm_cmd_def)

text \<open>What the two effectful loaders do, case by case.\<close>

lemma load_values_result:
  "load_values h wrkdir s w =
     (if truthy (values_str s)
      then (if utf8_valid (the (values_str s))
            then (Returned (Some (path_join wrkdir ''values.yaml'')),
                  w\<lparr>files := (files w)(path_join wrkdir ''values.yaml'' \<mapsto> the (values_str s))\<rparr>)
            else (Raised UnicodeEncodeError,
                  w\<lparr>files := (files w)(path_join wrkdir ''values.yaml'' \<mapsto> [])\<rparr>))
      else (Returned None, w))"
  by (cases "values_str s") (simp_all add: load_values_def ymlload_def Let_def)

lemma utf8_valid_examples:
  "utf8_valid ''a: [''"
  "utf8_valid ''k: v''"
  "\<not> utf8_valid [CHR ''k'', CHR 0xFF]"
  by code_simp+

lemma load_kubeconfig_enter_result:
  "load_kubeconfig_enter h wrkdir w =
     (case b64decode (case environ h ''KUBECFGB64'' of None \<Rightarrow> [] | Some e \<Rightarrow> e) of
        Inl e \<Rightarrow> (SystemExit 1, w\<lparr>stdout := stdout w @ [''Bad kubeconfig'']\<rparr>)
      | Inr decoded \<Rightarrow>
          (Returned (path_join wrkdir ''.kube_config.yml''),
           w\<lparr>files := (files w)(path_join wrkdir ''.kube_config.yml'' \<mapsto> decoded)\<rparr>))"
  by (simp add: load_kubeconfig_enter_def Let_def print_def split: sum.splits)

lemmas wrap_helm_defs =
  wrap_helm_def load_kubeconfig_enter_result run_helm_def load_kubeconfig_exit_def

section \<open>The chart reference resolver\<close>

text \<open>
  C4. The chart reference is the chart option unchanged when no repository is configured
  and when a repository is configured with a repository name; it is \<open>charts/\<close> followed
  by the chart when a repository is configured without a repository name, and for a chart
  that is set it has that form in this case only. Configured means set and not empty. A chart
  that is not set is printed as the word None after the prefix.
\<close>

theorem load_chart_cases:
  "(\<not> truthy (repo s) \<longrightarrow> load_chart s = chart s)
   \<and> (truthy (repo s) \<and> truthy (repo_name s) \<longrightarrow> load_chart s = chart s)
   \<and> (truthy (repo s) \<and> \<not> truthy (repo_name s) \<longrightarrow>
        load_chart s = Some (''charts/'' @ format_str (chart s)))
   \<and> (chart s = Some c \<longrightarrow>
        (load_chart s = Some (''charts/'' @ c) \<longleftrightarrow> truthy (repo s) \<and> \<not> truthy (repo_name s)))"
  by (auto simp: load_chart_def)

theorem load_chart_cases_witness:
  "truthy (repo demo_specs) \<and> \<not> truthy (repo_name demo_specs)
   \<and> chart demo_specs = Some ''app'' \<and> load_chart demo_specs = Some ''charts/app''"
  using load_chart_cases [of demo_specs "''app''"] by (simp add: demo_specs_def)

section \<open>Upgrade and install\<close>

text \<open>
  C6. For every configuration the argument list of upgrade is the argument list of install
  with \<open>--install\<close> inserted after its first two elements, the release and the chart
  reference, and so before \<open>--namespace\<close>; everything else is the same, in the same order.
\<close>

theorem upgrade_is_install_with_flag:
  "upgrade_params s values_target =
     take 2 (install_params s values_target) @ [Some ''--install'']
     @ drop 2 (install_params s values_target)
   \<and> take 2 (install_params s values_target) = [release s, load_chart s]
   \<and> take 1 (drop 2 (install_params s values_target)) = [Some ''--namespace'']"
  by (simp add: upgrade_params_def install_params_def)

theorem upgrade_is_install_with_flag_witness:
  "upgrade_params demo_specs (Some ''/tmp/w/values.yaml'') =
     [Some ''r1'', Some ''charts/app'', Some ''--install'', Some ''--namespace'', Some ''ns1'',
      Some ''--atomic'', Some ''-f'', Some ''a'', Some ''-f'', Some ''b'',
      Some ''-f'', Some ''/tmp/w/values.yaml'', Some ''--version'', Some ''1.2.3'',
      Some ''--timeout'', Some ''5m0s'']"
  using upgrade_is_install_with_flag [of demo_specs "Some ''/tmp/w/values.yaml''"]
  by (simp add: params_defs demo_specs_def splitlines_a_b)

section \<open>Template and install\<close>

text \<open>
  C2, as stated: the argument list of template is the argument list of install without the
  flags \<open>--atomic\<close> and \<open>--dry-run\<close>. It fails for a configuration with a timeout: install
  passes \<open>--timeout\<close> and its value, template does not.
\<close>

theorem template_vs_install_counterexample:
  "template_params demo_specs None \<noteq>
     removeAll (Some ''--atomic'')
       (removeAll (Some ''--dry-run'') (install_params demo_specs None))"
  by (simp add: params_defs demo_specs_def splitlines_a_b)

text \<open>
  C2, amended. For every configuration the argument list of template is the argument list
  that install assembles when atomic, dry-run and timeout are not set: install adds to it
  the flags \<open>--atomic\<close> and \<open>--dry-run\<close> after the namespace and the \<open>--timeout\<close> pair at
  the end; release, chart reference, namespace, the \<open>-f\<close> pairs and the \<open>--version\<close> pair
  are the same, in the same order.
\<close>

theorem template_is_install_without_flags_and_timeout:
  "template_params s values_target =
     install_params (s\<lparr>atomic := None, dry_run := None, timeout := None\<rparr>) values_target
   \<and> install_params s values_target =
       take 4 (template_params s values_target)
       @ (if atomic s = Some ''true'' then [Some ''--atomic''] else [])
       @ (if dry_run s = Some ''true'' then [Some ''--dry-run''] else [])
       @ drop 4 (template_params s values_target)
       @ (if truthy (timeout s) then [Some ''--timeout'', timeout s] else [])"
  by (simp add: install_params_def template_params_def load_chart_def load_values_files_def)

theorem template_is_install_without_flags_and_timeout_witness:
  "template_params demo_specs None =
     [Some ''r1'', Some ''charts/app'', Some ''--namespace'', Some ''ns1'',
      Some ''-f'', Some ''a'', Some ''-f'', Some ''b'', Some ''--version'', Some ''1.2.3'']
   \<and> install_params demo_specs None =
     [Some ''r1'', Some ''charts/app'', Some ''--namespace'', Some ''ns1'', Some ''--atomic'',
      Some ''-f'', Some ''a'', Some ''-f'', Some ''b'', Some ''--version'', Some ''1.2.3'',
      Some ''--timeout'', Some ''5m0s'']"
  using template_is_install_without_flags_and_timeout [of demo_specs None]
  by (simp add: params_defs demo_specs_def splitlines_a_b)

section \<open>Options that are not set\<close>

lemma values_files_params_entries:
  "[] \<notin> set fs \<Longrightarrow>
   None \<notin> set (values_files_params fs) \<and> Some [] \<notin> set (values_files_params fs)"
  by (induction fs) (auto simp: values_files_params_def)

lemma load_values_files_nonempty: "[] \<notin> set (load_values_files s)"
  by (auto simp: load_values_files_def split: option.splits)

text \<open>
  C3, as stated: no argument list holds an entry for an option that is not set. It fails
  for the configuration with nothing set: the release and the namespace are in the list
  of every operation, the chart in that of install, as null entries.
\<close>

theorem unset_options_counterexample:
  "uninstall_params no_specs = [None, Some ''--namespace'', None]
   \<and> None \<in> set (uninstall_params no_specs)
   \<and> install_params no_specs None = [None, None, Some ''--namespace'', None]
   \<and> None \<in> set (install_params no_specs None)"
  by (simp add: params_defs no_specs_def)

lemma flag_args_entries:
  "flag \<noteq> [] \<Longrightarrow> None \<notin> set (flag_args flag opt) \<and> Some [] \<notin> set (flag_args flag opt)"
  by (simp add: flag_args_def)

lemma pair_args_entries:
  "flag \<noteq> [] \<Longrightarrow> None \<notin> set (pair_args flag opt) \<and> Some [] \<notin> set (pair_args flag opt)"
  by (auto simp: pair_args_def split: option.splits)

lemma files_args_entries: "None \<notin> set (files_args opt) \<and> Some [] \<notin> set (files_args opt)"
  by (auto simp: files_args_def split: option.splits)

lemma files_args_load_values_files:
  "values_files_params (load_values_files s) = files_args (values_files s)"
  by (simp add: values_files_params_def load_values_files_def files_args_def splitlines_def
      split: option.splits)

lemma pair_args_truthy:
  "(if truthy opt then [Some flag, opt] else []) = pair_args flag opt"
  by (cases opt) (simp_all add: pair_args_def)

lemma load_chart_absent:
  "chart s = None \<Longrightarrow>
   load_chart s =
     (if truthy (repo s) \<and> \<not> truthy (repo_name s) then Some ''charts/None'' else None)"
  by (simp add: load_chart_def)

text \<open>
  C3, amended. For every configuration, release and namespace are in the argument list of
  every operation at fixed places whether they are set or not, as a null entry when they
  are not set (install, template: release, chart reference, \<open>--namespace\<close>, namespace;
  upgrade: the same with \<open>--install\<close> after the chart reference; uninstall: release,
  \<open>--namespace\<close>, namespace, and nothing else). The chart reference is always at its
  place too: for a chart that is not set it is a null entry, except when a repository is
  configured without a repository name, where it is the text charts/None. After these
  places the list is made of what the options add, in the order atomic, dry-run,
  values-files, inline values, chart-version, timeout (template: values-files, inline
  values, chart-version): each part depends on its own option only, is empty when that
  option is not set, and holds no null and no empty entry. The part of the inline values
  depends on what \<open>load_values\<close> returned, which is no path exactly when the inline
  values are not set or empty.
\<close>

theorem optional_flags_omitted:
  "install_params s vt =
      [release s, load_chart s, Some ''--namespace'', namespace s]
      @ flag_args ''--atomic'' (atomic s) @ flag_args ''--dry-run'' (dry_run s)
      @ files_args (values_files s) @ pair_args ''-f'' vt
      @ pair_args ''--version'' (chart_version s) @ pair_args ''--timeout'' (timeout s)
   \<and> upgrade_params s vt =
      [release s, load_chart s, Some ''--install'', Some ''--namespace'', namespace s]
      @ flag_args ''--atomic'' (atomic s) @ flag_args ''--dry-run'' (dry_run s)
      @ files_args (values_files s) @ pair_args ''-f'' vt
      @ pair_args ''--version'' (chart_version s) @ pair_args ''--timeout'' (timeout s)
   \<and> template_params s vt =
      [release s, load_chart s, Some ''--namespace'', namespace s]
      @ files_args (values_files s) @ pair_args ''-f'' vt
      @ pair_args ''--version'' (chart_version s)
   \<and> uninstall_params s = [release s, Some ''--namespace'', namespace s]
   \<and> flag_args flag None = [] \<and> pair_args flag None = [] \<and> files_args None = []
   \<and> (flag \<noteq> [] \<longrightarrow>
        None \<notin> set (flag_args flag opt) \<and> Some [] \<notin> set (flag_args flag opt)
        \<and> None \<notin> set (pair_args flag opt) \<and> Some [] \<notin> set (pair_args flag opt))
   \<and> None \<notin> set (files_args opt) \<and> Some [] \<notin> set (files_args opt)
   \<and> (fst (load_values h wrkdir s w) = Returned None \<longleftrightarrow> \<not> truthy (values_str s))
   \<and> (chart s = None \<longrightarrow>
        load_chart s =
          (if truthy (repo s) \<and> \<not> truthy (repo_name s) then Some ''charts/None'' else None))"
proof -
  have i: "install_params s vt =
      [release s, load_chart s, Some ''--namespace'', namespace s]
      @ flag_args ''--atomic'' (atomic s) @ flag_args ''--dry-run'' (dry_run s)
      @ files_args (values_files s) @ pair_args ''-f'' vt
      @ pair_args ''--version'' (chart_version s) @ pair_args ''--timeout'' (timeout s)"
    unfolding install_params_def files_args_load_values_files pair_args_truthy
    by (simp add: flag_args_def)
  have u: "upgrade_params s vt =
      [release s, load_chart s, Some ''--install'', Some ''--namespace'', namespace s]
      @ flag_args ''--atomic'' (atomic s) @ flag_args ''--dry-run'' (dry_run s)
      @ files_args (values_files s) @ pair_args ''-f'' vt
      @ pair_args ''--version'' (chart_version s) @ pair_args ''--timeout'' (timeout s)"
    unfolding upgrade_params_def files_args_load_values_files pair_args_truthy
    by (simp add: flag_args_def)
  have t: "template_params s vt =
      [release s, load_chart s, Some ''--namespace'', namespace s]
      @ files_args (values_files s) @ pair_args ''-f'' vt
      @ pair_args ''--version'' (chart_version s)"
    unfolding template_params_def files_args_load_values_files pair_args_truthy
    by simp
  have n: "flag_args flag None = [] \<and> pair_args flag None = [] \<and> files_args None = []"
    by (simp add: flag_args_def pair_args_def files_args_def)
  have v: "fst (load_values h wrkdir s w) = Returned None \<longleftrightarrow> \<not> truthy (values_str s)"
    by (simp add: load_values_result)
  show ?thesis
    using i u t n v flag_args_entries [of flag opt] pair_args_entries [of flag opt]
      files_args_entries [of opt] load_chart_absent [of s]
    by (simp add: uninstall_params_def)
qed

theorem optional_flags_omitted_witness:
  "install_params
     (no_specs\<lparr>release := Some ''r1'', chart := Some ''app'', namespace := Some ''ns1''\<rparr>) None
     = [Some ''r1'', Some ''app'', Some ''--namespace'', Some ''ns1'']
   \<and> install_params repo_only_specs None
     = [None, Some ''charts/None'', Some ''--namespace'', None]
   \<and> install_params no_specs None = [None, None, Some ''--namespace'', None]
   \<and> install_params demo_specs None =
       [Some ''r1'', Some ''charts/app'', Some ''--namespace'', Some ''ns1'',
        Some ''--atomic'', Some ''-f'', Some ''a'', Some ''-f'', Some ''b'',
        Some ''--version'', Some ''1.2.3'', Some ''--timeout'', Some ''5m0s'']
   \<and> flag_args ''--atomic'' (atomic demo_specs) = [Some ''--atomic'']
   \<and> flag_args ''--dry-run'' (dry_run demo_specs) = []
   \<and> pair_args ''--timeout'' (timeout demo_specs) = [Some ''--timeout'', Some ''5m0s'']
   \<and> fst (load_values (demo_host Map.empty) ''/tmp/tmpw'' no_specs empty_world) = Returned None"
  using optional_flags_omitted
      [where s = "no_specs\<lparr>release := Some ''r1'', chart := Some ''app'', namespace := Some ''ns1''\<rparr>"
        and vt = None and flag = "''--atomic''" and opt = None and h = "demo_host Map.empty"
        and wrkdir = "''/tmp/tmpw''" and w = empty_world]
    optional_flags_omitted
      [where s = repo_only_specs and vt = None and flag = "''--atomic''" and opt = None
        and h = "demo_host Map.empty" and wrkdir = "''/tmp/tmpw''" and w = empty_world]
    optional_flags_omitted
      [where s = no_specs and vt = None and flag = "''--atomic''" and opt = None
        and h = "demo_host Map.empty" and wrkdir = "''/tmp/tmpw''" and w = empty_world]
    optional_flags_omitted
      [where s = demo_specs and vt = None and flag = "''--atomic''" and opt = "Some ''true''"
        and h = "demo_host Map.empty" and wrkdir = "''/tmp/tmpw''" and w = empty_world]
  by (simp add: params_defs no_specs_def repo_only_specs_def demo_specs_def splitlines_a_b
      flag_args_def pair_args_def files_args_def)

section \<open>The values-file list\<close>

lemma concat_splitlines_from: "concat (splitlines_from cur s) = cur @ remove_breaks s"
proof (induction cur s rule: splitlines_from.induct)
  case (1 cur)
  then show ?case by simp
next
  case (2 cur c cs)
  then show ?case
    by (cases "linebreak_len (c # cs) = 0") (simp_all del: linebreak_len.simps)
qed

lemma concat_filter_nonempty: "concat (filter (\<lambda>l. l \<noteq> []) xs) = concat xs"
  by (induction xs) auto

text \<open>A text that starts with a boundary still starts with one when it is extended.\<close>

lemma linebreak_len_append: "linebreak_len (b @ r) = 0 \<Longrightarrow> linebreak_len b = 0"
proof (cases b)
  case Nil
  then show ?thesis by simp
next
  case (Cons c cs)
  assume a: "linebreak_len (b @ r) = 0"
  show ?thesis
  proof (cases cs)
    case Nil
    then show ?thesis using a Cons by (auto split: if_splits list.splits)
  next
    case (Cons d ds)
    then show ?thesis
      using a \<open>b = c # cs\<close> by (cases ds) (auto split: if_splits list.splits)
  qed
qed

lemma has_break_drop:
  "has_break l \<longleftrightarrow> (\<exists>i<length l. 0 < linebreak_len (drop i l))"
proof (induction l)
  case Nil
  then show ?case by simp
next
  case (Cons c cs)
  have "(\<exists>i<length (c # cs). 0 < linebreak_len (drop i (c # cs))) \<longleftrightarrow>
        (0 < linebreak_len (c # cs) \<or> (\<exists>i<length cs. 0 < linebreak_len (drop i cs)))"
    by (simp add: Ex_less_Suc2 del: linebreak_len.simps)
  then show ?case using Cons by (simp del: linebreak_len.simps)
qed

text \<open>
  The invariant of the scan: no boundary starts inside the line read so far, also when
  the rest of the text is taken into account.
\<close>

lemma splitlines_from_no_break:
  "(\<forall>i<length cur. linebreak_len (drop i cur @ s) = 0) \<Longrightarrow>
   \<forall>l\<in>set (splitlines_from cur s). \<not> has_break l"
proof (induction cur s rule: splitlines_from.induct)
  case (1 cur)
  then show ?case by (simp add: has_break_drop)
next
  case (2 cur c cs)
  show ?case
  proof (cases "linebreak_len (c # cs) = 0")
    case True
    have "\<forall>i<length (cur @ [c]). linebreak_len (drop i (cur @ [c]) @ cs) = 0"
      using "2.prems" True by (simp add: less_Suc_eq del: linebreak_len.simps)
    then show ?thesis using "2.IH"(1) True by (simp del: linebreak_len.simps)
  next
    case False
    have "\<not> has_break cur"
      using "2.prems" linebreak_len_append
      by (fastforce simp: has_break_drop simp del: linebreak_len.simps)
    then show ?thesis using "2.IH"(2) False by (simp del: linebreak_len.simps)
  qed
qed

lemma splitlines_no_break: "\<forall>l\<in>set (splitlines v). \<not> has_break l"
  using splitlines_from_no_break [of "[]" v] by (simp add: splitlines_def)

text \<open>
  C7. Without the input the list is empty. With it, the list is the lines of the text as
  \<open>splitlines\<close> cuts them, in their order, without the empty ones: joined together they
  are the text without its line boundaries, none of them is empty and none holds a line
  boundary. A line is dropped only when it is empty; a line of spaces is kept. The text
  a, LF, LF, b, LF gives the lines a and b.
\<close>

theorem load_values_files_lines:
  "(values_files s = None \<longrightarrow> load_values_files s = [])
   \<and> (values_files s = Some v \<longrightarrow>
        load_values_files s = filter (\<lambda>l. l \<noteq> []) (splitlines v)
        \<and> concat (load_values_files s) = remove_breaks v)
   \<and> (\<forall>l\<in>set (load_values_files s). l \<noteq> [] \<and> \<not> has_break l)
   \<and> (values_files s = Some [CHR ''a'', CHR 0x0A, CHR 0x0A, CHR ''b'', CHR 0x0A] \<longrightarrow>
        load_values_files s = [''a'', ''b''])"
proof -
  have a: "values_files s = None \<longrightarrow> load_values_files s = []"
    by (simp add: load_values_files_def)
  have b: "values_files s = Some v \<longrightarrow>
        load_values_files s = filter (\<lambda>l. l \<noteq> []) (splitlines v)
        \<and> concat (load_values_files s) = remove_breaks v"
    by (auto simp: load_values_files_def concat_filter_nonempty splitlines_def
        concat_splitlines_from)
  have c: "\<forall>l\<in>set (load_values_files s). l \<noteq> [] \<and> \<not> has_break l"
    using splitlines_no_break by (auto simp: load_values_files_def split: option.splits)
  have d: "values_files s = Some [CHR ''a'', CHR 0x0A, CHR 0x0A, CHR ''b'', CHR 0x0A] \<longrightarrow>
        load_values_files s = [''a'', ''b'']"
    by (simp add: load_values_files_def splitlines_a_b)
  show ?thesis using a b c d by blast
qed

theorem load_values_files_lines_witness:
  "load_values_files demo_specs = [''a'', ''b''] \<and> load_values_files no_specs = []"
  using load_values_files_lines [of demo_specs "[CHR ''a'', CHR 0x0A, CHR 0x0A, CHR ''b'', CHR 0x0A]"]
    load_values_files_lines [of no_specs "[]"]
  by (simp add: demo_specs_def no_specs_def splitlines_a_b)

section \<open>Unknown mode\<close>

lemma dispatch_None:
  "dispatch m = None \<longleftrightarrow>
     m \<notin> {Some ''install'', Some ''upgrade'', Some ''uninstall'', Some ''template''}"
  by (simp add: dispatch_def)

text \<open>
  C8. When the mode read from the environment is none of install, upgrade, uninstall and
  template, or is not set, the program prints the line about the unknown mode and exits
  with code 1; no child process is started, no directory is created and no file is
  written.
\<close>

theorem unknown_mode_exits:
  assumes "environ h ''GHINPUT_MODE'' \<notin>
     {Some ''install'', Some ''upgrade'', Some ''uninstall'', Some ''template''}"
  shows "run h w = (SystemExit 1, w\<lparr>stdout := stdout w @ [''Unknown `mode` specified.'']\<rparr>)
     \<and> launched (snd (run h w)) = launched w
     \<and> dirs (snd (run h w)) = dirs w
     \<and> files (snd (run h w)) = files w"
proof -
  have "dispatch (mode (load_inputs (environ h))) = None"
    using assms by (simp add: dispatch_None load_inputs_fields)
  then show ?thesis by (simp add: run_def print_def)
qed

theorem unknown_mode_exits_witness:
  "fst (run (demo_host [''GHINPUT_MODE'' \<mapsto> ''delete'']) empty_world) = SystemExit 1
   \<and> stdout (snd (run (demo_host [''GHINPUT_MODE'' \<mapsto> ''delete'']) empty_world))
       = [''Unknown `mode` specified.'']
   \<and> dirs (snd (run (demo_host [''GHINPUT_MODE'' \<mapsto> ''delete'']) empty_world)) = []
   \<and> launched (snd (run (demo_host [''GHINPUT_MODE'' \<mapsto> ''delete'']) empty_world)) = []
   \<and> fst (run (demo_host Map.empty) empty_world) = SystemExit 1"
  using unknown_mode_exits [of "demo_host [''GHINPUT_MODE'' \<mapsto> ''delete'']" empty_world]
    unknown_mode_exits [of "demo_host Map.empty" empty_world]
  by (simp add: demo_host_def empty_world_def)

section \<open>Uninstall\<close>

text \<open>
  C9. With mode uninstall, release r1 and namespace ns1 the argument list is r1,
  \<open>--namespace\<close>, ns1, whatever else is configured. The run is the credential wrapper
  on this list: at most one child process is started, helm uninstall with these
  arguments and the credential file, none for a repository; the inline values file is not
  touched.
\<close>

theorem uninstall_arguments:
  assumes "environ h ''GHINPUT_MODE'' = Some ''uninstall''"
    and "environ h ''GHINPUT_RELEASE'' = Some ''r1''"
    and "environ h ''GHINPUT_NAMESPACE'' = Some ''ns1''"
  shows "uninstall_params (load_inputs (environ h))
       = [Some ''r1'', Some ''--namespace'', Some ''ns1'']
     \<and> run h w =
         wrap_helm h (tmpdir h) ''uninstall'' [Some ''r1'', Some ''--namespace'', Some ''ns1''] True
           (w\<lparr>dirs := dirs w @ [tmpdir h]\<rparr>)
     \<and> (launched (snd (run h w)) = launched w
         \<or> launched (snd (run h w)) =
             launched w @ [(''helm uninstall r1 --namespace ns1'',
                            Some (path_join (tmpdir h) ''.kube_config.yml''))])
     \<and> files (snd (run h w)) (path_join (tmpdir h) ''values.yaml'')
         = files w (path_join (tmpdir h) ''values.yaml'')"
proof -
  let ?s = "load_inputs (environ h)"
  have p: "uninstall_params ?s = [Some ''r1'', Some ''--namespace'', Some ''ns1'']"
    using assms by (simp add: uninstall_params_def load_inputs_fields)
  have r: "run h w = wrap_helm h (tmpdir h) ''uninstall'' (uninstall_params ?s) True
           (w\<lparr>dirs := dirs w @ [tmpdir h]\<rparr>)"
    using assms by (simp add: run_def dispatch_def load_inputs_fields helm_uninstall_def Let_def)
  have ne: "path_join (tmpdir h) ''values.yaml'' \<noteq> path_join (tmpdir h) ''.kube_config.yml''"
    by (simp add: path_join_def)
  have l: "launched (snd (run h w)) = launched w
         \<or> launched (snd (run h w)) =
             launched w @ [(''helm uninstall r1 --namespace ns1'',
                            Some (path_join (tmpdir h) ''.kube_config.yml''))]"
    unfolding r p by (simp add: wrap_helm_defs helm_cmd_uninstall split: sum.splits)
  have f: "files (snd (run h w)) (path_join (tmpdir h) ''values.yaml'')
         = files w (path_join (tmpdir h) ''values.yaml'')"
    unfolding r p using ne by (simp add: wrap_helm_defs helm_cmd_uninstall split: sum.splits)
  show ?thesis using p r l f by simp
qed

theorem uninstall_arguments_witness:
  "uninstall_params (load_inputs uninstall_env) = [Some ''r1'', Some ''--namespace'', Some ''ns1'']
   \<and> fst (run (demo_host uninstall_env) empty_world) = SystemExit 0
   \<and> launched (snd (run (demo_host uninstall_env) empty_world)) =
       [(''helm uninstall r1 --namespace ns1'', Some ''/tmp/tmpw/.kube_config.yml'')]
   \<and> files (snd (run (demo_host uninstall_env) empty_world)) ''/tmp/tmpw/.kube_config.yml'' = None
   \<and> files (snd (run (demo_host uninstall_env) empty_world)) ''/tmp/tmpw/values.yaml'' = None"
  using uninstall_arguments [of "demo_host uninstall_env" empty_world]
  by (simp add: demo_host_def uninstall_env_def empty_world_def wrap_helm_defs
      helm_cmd_uninstall b64decode_examples path_join_def)

section \<open>Validation of the inline values\<close>

text \<open>
  C5. The claim: for a text that is not valid YAML, \<open>load_values\<close> prints its diagnostic,
  exits with code 1 and writes no file. The code: \<open>load_values\<close> calls \<open>safe_load_all\<close>
  and never iterates what it returns, so the parser does not run (see
  \<open>load_values_result\<close>: the result does not depend on the parser, and no case of it
  prints the diagnostic or exits). On a host whose parser rejects the text, the text is
  written to \<open>values.yaml\<close>, the path is returned and nothing is printed.
\<close>

theorem invalid_values_written:
  "fst (load_values (demo_host Map.empty) ''/tmp/tmpw''
          (no_specs\<lparr>values_str := Some ''a: [''\<rparr>) empty_world)
     = Returned (Some ''/tmp/tmpw/values.yaml'')
   \<and> files (snd (load_values (demo_host Map.empty) ''/tmp/tmpw''
                   (no_specs\<lparr>values_str := Some ''a: [''\<rparr>) empty_world))
       ''/tmp/tmpw/values.yaml'' = Some ''a: [''
   \<and> stdout (snd (load_values (demo_host Map.empty) ''/tmp/tmpw''
                    (no_specs\<lparr>values_str := Some ''a: [''\<rparr>) empty_world)) = []
   \<and> yaml_parser (demo_host Map.empty) ''a: ['' = Inl YAMLError"
  by (simp add: load_values_result utf8_valid_examples no_specs_def path_join_def demo_host_def
      empty_world_def)

section \<open>The credential decoder\<close>

lemma a2b_loop_filter:
  "a2b_loop quad_pos leftchar pads out (filter b64_char s) = a2b_loop quad_pos leftchar pads out s"
proof (induction s arbitrary: quad_pos leftchar pads out)
  case Nil
  then show ?case by simp
next
  case (Cons c s)
  show ?case
  proof (cases "b64_char c")
    case True
    then show ?thesis using Cons by (simp split: option.splits)
  next
    case False
    then have "c \<noteq> CHR ''=''" and "b64_value c = None"
      by (simp_all add: b64_char_def)
    then show ?thesis using Cons False by simp
  qed
qed

lemma is_ascii_filter: "list_all is_ascii s \<Longrightarrow> list_all is_ascii (filter P s)"
  by (induction s) auto

lemma b64decode_filter:
  "list_all is_ascii s \<Longrightarrow> b64decode (filter b64_char s) = b64decode s"
  by (simp add: b64decode_def a2b_base64_def a2b_loop_filter is_ascii_filter)

text \<open>
  C10, as stated: every credential whose only defect is characters outside the base64
  alphabet is decoded with these characters discarded. It fails for a character that is
  not ASCII: the text aGk= with the two bytes of an e with acute accent (U+00E9) inside is
  aGk= once these are taken out, which decodes to hi, but the program prints its
  diagnostic and exits with code 1.
\<close>

theorem non_ascii_credential_counterexample:
  "filter b64_char [CHR ''a'', CHR ''G'', CHR 0xC3, CHR 0xA9, CHR ''k'', CHR ''='']
     = ''aGk=''
   \<and> b64decode ''aGk='' = Inr ''hi''
   \<and> load_kubeconfig_enter
        (demo_host
           [''KUBECFGB64'' \<mapsto> [CHR ''a'', CHR ''G'', CHR 0xC3, CHR 0xA9, CHR ''k'', CHR ''='']])
        ''/tmp/tmpw'' empty_world
      = (SystemExit 1, empty_world\<lparr>stdout := [''Bad kubeconfig'']\<rparr>)"
proof -
  have "load_kubeconfig_enter
        (demo_host
           [''KUBECFGB64'' \<mapsto> [CHR ''a'', CHR ''G'', CHR 0xC3, CHR 0xA9, CHR ''k'', CHR ''='']])
        ''/tmp/tmpw'' empty_world
      = (SystemExit 1, empty_world\<lparr>stdout := [''Bad kubeconfig'']\<rparr>)"
    by (simp add: b64decode_examples load_kubeconfig_enter_result demo_host_def empty_world_def)
  then show ?thesis using b64decode_examples(1,7) by blast
qed

lemma b64decode_non_ascii: "\<not> list_all is_ascii s \<Longrightarrow> b64decode s = Inl ValueError"
  by (simp add: b64decode_def)

text \<open>
  C10, amended. For every credential made of ASCII characters, the characters that are
  neither in the base64 alphabet nor the padding character are discarded: the program
  does what it does on the credential without them, and when that one decodes it writes
  the decoded bytes and goes on. For every credential with a character that is not
  ASCII the decoding raises, and the program prints its diagnostic and exits with code 1.
  For every credential, the diagnostic and exit code 1 occur exactly when the decoding
  raises.
\<close>

theorem ascii_noise_discarded:
  assumes "environ h ''KUBECFGB64'' = Some s"
  shows "(list_all is_ascii s \<longrightarrow>
          load_kubeconfig_enter h wrkdir w =
            load_kubeconfig_enter
              (h\<lparr>environ := (environ h)(''KUBECFGB64'' \<mapsto> filter b64_char s)\<rparr>) wrkdir w
          \<and> (b64decode (filter b64_char s) = Inr decoded \<longrightarrow>
               load_kubeconfig_enter h wrkdir w =
                 (Returned (path_join wrkdir ''.kube_config.yml''),
                  w\<lparr>files := (files w)(path_join wrkdir ''.kube_config.yml'' \<mapsto> decoded)\<rparr>)))
     \<and> (\<not> list_all is_ascii s \<longrightarrow>
          b64decode s = Inl ValueError
          \<and> load_kubeconfig_enter h wrkdir w =
              (SystemExit 1, w\<lparr>stdout := stdout w @ [''Bad kubeconfig'']\<rparr>))
     \<and> (fst (load_kubeconfig_enter h wrkdir w) = SystemExit 1 \<longleftrightarrow> isl (b64decode s))
     \<and> (isl (b64decode s) \<longrightarrow>
          load_kubeconfig_enter h wrkdir w =
            (SystemExit 1, w\<lparr>stdout := stdout w @ [''Bad kubeconfig'']\<rparr>))
     \<and> (b64decode s = Inr decoded \<longrightarrow>
          load_kubeconfig_enter h wrkdir w =
            (Returned (path_join wrkdir ''.kube_config.yml''),
             w\<lparr>files := (files w)(path_join wrkdir ''.kube_config.yml'' \<mapsto> decoded)\<rparr>))"
proof -
  have a: "list_all is_ascii s \<longrightarrow>
          load_kubeconfig_enter h wrkdir w =
            load_kubeconfig_enter
              (h\<lparr>environ := (environ h)(''KUBECFGB64'' \<mapsto> filter b64_char s)\<rparr>) wrkdir w
          \<and> (b64decode (filter b64_char s) = Inr decoded \<longrightarrow>
               load_kubeconfig_enter h wrkdir w =
                 (Returned (path_join wrkdir ''.kube_config.yml''),
                  w\<lparr>files := (files w)(path_join wrkdir ''.kube_config.yml'' \<mapsto> decoded)\<rparr>))"
    using assms b64decode_filter [of s]
    by (auto simp: load_kubeconfig_enter_result split: sum.splits)
  have b: "\<not> list_all is_ascii s \<longrightarrow>
          b64decode s = Inl ValueError
          \<and> load_kubeconfig_enter h wrkdir w =
              (SystemExit 1, w\<lparr>stdout := stdout w @ [''Bad kubeconfig'']\<rparr>)"
    using assms b64decode_non_ascii [of s] by (simp add: load_kubeconfig_enter_result)
  have c: "(fst (load_kubeconfig_enter h wrkdir w) = SystemExit 1 \<longleftrightarrow> isl (b64decode s))
     \<and> (isl (b64decode s) \<longrightarrow>
          load_kubeconfig_enter h wrkdir w =
            (SystemExit 1, w\<lparr>stdout := stdout w @ [''Bad kubeconfig'']\<rparr>))
     \<and> (b64decode s = Inr decoded \<longrightarrow>
          load_kubeconfig_enter h wrkdir w =
            (Returned (path_join wrkdir ''.kube_config.yml''),
             w\<lparr>files := (files w)(path_join wrkdir ''.kube_config.yml'' \<mapsto> decoded)\<rparr>))"
    using assms by (auto simp: load_kubeconfig_enter_result split: sum.splits)
  show ?thesis using a b c by blast
qed

theorem ascii_noise_discarded_witness:
  "load_kubeconfig_enter (demo_host [''KUBECFGB64'' \<mapsto> ''a!G k='']) ''/tmp/tmpw'' empty_world =
     (Returned ''/tmp/tmpw/.kube_config.yml'',
      empty_world\<lparr>files := [''/tmp/tmpw/.kube_config.yml'' \<mapsto> ''hi'']\<rparr>)
   \<and> load_kubeconfig_enter (demo_host [''KUBECFGB64'' \<mapsto> [CHR ''a'', CHR 0xFF]])
       ''/tmp/tmpw'' empty_world
     = (SystemExit 1, empty_world\<lparr>stdout := [''Bad kubeconfig'']\<rparr>)"
proof -
  let ?h = "demo_host [''KUBECFGB64'' \<mapsto> ''a!G k='']"
  let ?g = "demo_host [''KUBECFGB64'' \<mapsto> [CHR ''a'', CHR 0xFF]]"
  have e: "environ ?h ''KUBECFGB64'' = Some ''a!G k=''"
    by (simp add: demo_host_def)
  have a: "list_all is_ascii ''a!G k=''"
    by (rule b64decode_examples)
  have d: "b64decode (filter b64_char ''a!G k='') = Inr ''hi''"
    by (simp only: b64decode_examples)
  have "load_kubeconfig_enter ?h ''/tmp/tmpw'' empty_world =
        (Returned (path_join ''/tmp/tmpw'' ''.kube_config.yml''),
         empty_world\<lparr>files :=
           (files empty_world)(path_join ''/tmp/tmpw'' ''.kube_config.yml'' \<mapsto> ''hi'')\<rparr>)"
    using ascii_noise_discarded
        [OF e, where decoded = "''hi''" and wrkdir = "''/tmp/tmpw''" and w = empty_world] a d
    by blast
  then have first: "load_kubeconfig_enter ?h ''/tmp/tmpw'' empty_world =
     (Returned ''/tmp/tmpw/.kube_config.yml'',
      empty_world\<lparr>files := [''/tmp/tmpw/.kube_config.yml'' \<mapsto> ''hi'']\<rparr>)"
    by (simp add: path_join_def empty_world_def)
  have g: "environ ?g ''KUBECFGB64'' = Some [CHR ''a'', CHR 0xFF]"
    by (simp add: demo_host_def)
  have n: "\<not> list_all is_ascii [CHR ''a'', CHR 0xFF]"
    by code_simp
  have "load_kubeconfig_enter ?g ''/tmp/tmpw'' empty_world =
      (SystemExit 1, empty_world\<lparr>stdout := stdout empty_world @ [''Bad kubeconfig'']\<rparr>)"
    using ascii_noise_discarded
        [OF g, where decoded = "''x''" and wrkdir = "''/tmp/tmpw''" and w = empty_world] n
    by blast
  then have second: "load_kubeconfig_enter ?g ''/tmp/tmpw'' empty_world
     = (SystemExit 1, empty_world\<lparr>stdout := [''Bad kubeconfig'']\<rparr>)"
    by (simp add: empty_world_def)
  show ?thesis using first second by simp
qed

section \<open>The credential file\<close>

lemma run_helm_files: "files (snd (run_helm h cmd params k w)) = files w"
  by (simp add: run_helm_def split: sum.splits)

text \<open>When helm returns, the credential file is gone and the process exits with its code.\<close>

lemma wrap_helm_returned:
  assumes "load_kubeconfig_enter h wrkdir w = (Returned k, w1)"
    and "run_helm h cmd params (Some k) w1 = (Returned ret, w2)"
  shows "fst (wrap_helm h wrkdir cmd params True w) = SystemExit ret
     \<and> files (snd (wrap_helm h wrkdir cmd params True w)) k = None"
proof -
  have "files w1 k \<noteq> None"
    using assms(1) by (auto simp: load_kubeconfig_enter_result split: sum.splits)
  moreover have "files w2 = files w1"
    using run_helm_files [of h cmd params "Some k" w1] assms(2) by simp
  ultimately show ?thesis
    using assms by (simp add: wrap_helm_def load_kubeconfig_exit_def)
qed

text \<open>When running helm raises, the exception leaves the block and the file stays.\<close>

lemma wrap_helm_raised:
  assumes "load_kubeconfig_enter h wrkdir w = (Returned k, w1)"
    and "run_helm h cmd params (Some k) w1 = (Raised e, w2)"
  shows "fst (wrap_helm h wrkdir cmd params True w) = Raised e
     \<and> files (snd (wrap_helm h wrkdir cmd params True w)) k \<noteq> None"
proof -
  have "files w1 k \<noteq> None"
    using assms(1) by (auto simp: load_kubeconfig_enter_result split: sum.splits)
  moreover have "files w2 = files w1"
    using run_helm_files [of h cmd params "Some k" w1] assms(2) by simp
  ultimately show ?thesis
    using assms by (simp add: wrap_helm_def)
qed

text \<open>
  C1. The claim: the credential file is deleted on every way out of the block of
  \<open>wrap_helm\<close>, also when the wrapped operation raises. The code: two runs of uninstall
  with the credential aGk= (the bytes hi). In the first the release is not set, so
  joining the command line raises \<open>TypeError\<close>; in the second there is no helm binary,
  so starting the child raises \<open>OSError\<close>. Both exceptions leave the program, and after
  both the credential file is still there with the decoded bytes.
\<close>

theorem credential_file_left_behind:
  "fst (run (demo_host leak_env) empty_world) = Raised TypeError
   \<and> files (snd (run (demo_host leak_env) empty_world)) ''/tmp/tmpw/.kube_config.yml''
       = Some ''hi''
   \<and> fst (run (no_helm_host uninstall_env) empty_world) = Raised OSError
   \<and> files (snd (run (no_helm_host uninstall_env) empty_world)) ''/tmp/tmpw/.kube_config.yml''
       = Some ''hi''"
  by (simp add: run_def dispatch_def load_inputs_def env_names helm_uninstall_def Let_def
      demo_host_def no_helm_host_def leak_env_def uninstall_env_def empty_world_def
      wrap_helm_defs helm_cmd_def uninstall_params_def b64decode_examples path_join_def)

end
